theory Spec2Isabelle
  imports Complex_Main "HOL-Library.Multiset"
begin

section \<open>The help-desk ticket API (server.js, db.js)\<close>

subsection \<open>JavaScript values\<close>

text \<open>
  Request bodies are decoded by \<^verbatim>\<open>express.json()\<close>, so every field the handlers read is
  absent or the value \<^verbatim>\<open>JSON.parse\<close> gives for a JSON text. An absent field reads as
  \<^verbatim>\<open>undefined\<close>, which is \<open>None\<close> of the option type. A number is given by the value it
  denotes. \<^verbatim>\<open>JSON.parse\<close> reads a numeral beyond the range of a double (\<^verbatim>\<open>1e400\<close>) as
  \<^verbatim>\<open>Infinity\<close> or \<^verbatim>\<open>-Infinity\<close>, so the numbers of a parsed body are of type \<open>number\<close>;
  \<^verbatim>\<open>JSON.stringify\<close> writes only finite numbers, so the numbers of a stored or answered
  value are rationals.
\<close>

datatype number = Finite rat | PosInfinity | NegInfinity

datatype 'n jsval =
    JNull
  | JBool bool
  | JNum 'n
  | JStr string
  | JArr "'n jsval list"
  | JObj "(string \<times> 'n jsval) list"

text \<open>\<open>jsvalue\<close>: a value of a parsed request body. \<open>json\<close>: a value that a text written
  by \<^verbatim>\<open>JSON.stringify\<close> denotes.\<close>

type_synonym jsvalue = "number jsval"

type_synonym json = "rat jsval"

text \<open>ToBoolean: \<^verbatim>\<open>undefined\<close>, \<^verbatim>\<open>null\<close>, \<^verbatim>\<open>false\<close>, \<^verbatim>\<open>0\<close> and \<^verbatim>\<open>""\<close> are falsy;
  every other number, the infinite ones too, and every array and object is truthy.\<close>

fun truthy :: "jsvalue option \<Rightarrow> bool" where
  "truthy None = False"
| "truthy (Some JNull) = False"
| "truthy (Some (JBool b)) = b"
| "truthy (Some (JNum n)) = (n \<noteq> Finite 0)"
| "truthy (Some (JStr s)) = (s \<noteq> [])"
| "truthy (Some (JArr xs)) = True"
| "truthy (Some (JObj kvs)) = True"

text \<open>\<^verbatim>\<open>v || d\<close> with a JSON value \<open>d\<close> on the right.\<close>

definition js_or :: "jsvalue option \<Rightarrow> jsvalue \<Rightarrow> jsvalue" where
  "js_or v d = (case v of None \<Rightarrow> d | Some x \<Rightarrow> if truthy (Some x) then x else d)"

text \<open>
  What \<^verbatim>\<open>JSON.stringify\<close> writes for a value, as the value the written text denotes:
  \<^verbatim>\<open>Infinity\<close> and \<^verbatim>\<open>-Infinity\<close> are written \<^verbatim>\<open>null\<close>, also inside arrays and objects;
  everything else is written as it is.
\<close>

primrec stringify :: "jsvalue \<Rightarrow> json" where
  "stringify JNull = JNull"
| "stringify (JBool b) = JBool b"
| "stringify (JNum n) = (case n of Finite r \<Rightarrow> JNum r | PosInfinity \<Rightarrow> JNull | NegInfinity \<Rightarrow> JNull)"
| "stringify (JStr s) = JStr s"
| "stringify (JArr xs) = JArr (map stringify xs)"
| "stringify (JObj kvs) = JObj (map (map_prod id stringify) kvs)"

text \<open>\<^verbatim>\<open>Array.prototype.findIndex\<close>: the first index whose element satisfies the
  predicate, \<open>-1\<close> when there is none.\<close>

fun findIndex :: "('a \<Rightarrow> bool) \<Rightarrow> 'a list \<Rightarrow> int" where
  "findIndex p [] = - 1"
| "findIndex p (x # xs) =
     (if p x then 0
      else (let i = findIndex p xs in if i = - 1 then - 1 else i + 1))"

text \<open>\<^verbatim>\<open>Array.prototype.includes\<close> on an array of strings.\<close>

definition includes_js :: "string list \<Rightarrow> 'n jsval \<Rightarrow> bool" where
  "includes_js xs v = (case v of JStr s \<Rightarrow> s \<in> set xs | _ \<Rightarrow> False)"

text \<open>\<^verbatim>\<open>Array.prototype.sort\<close> with a comparator: a stable sort, modelled by stable
  insertion. \<open>cmp a b < 0\<close> puts \<open>a\<close> before \<open>b\<close>.\<close>

fun insert_cmp :: "('a \<Rightarrow> 'a \<Rightarrow> int) \<Rightarrow> 'a \<Rightarrow> 'a list \<Rightarrow> 'a list" where
  "insert_cmp cmp a [] = [a]"
| "insert_cmp cmp a (b # bs) =
     (if cmp a b \<le> 0 then a # b # bs else b # insert_cmp cmp a bs)"

fun sort_cmp :: "('a \<Rightarrow> 'a \<Rightarrow> int) \<Rightarrow> 'a list \<Rightarrow> 'a list" where
  "sort_cmp cmp [] = []"
| "sort_cmp cmp (a # as) = insert_cmp cmp a (sort_cmp cmp as)"

subsection \<open>Tickets and the store (db.js)\<close>

text \<open>
  A ticket as \<^verbatim>\<open>app.post\<close> builds it. \<open>id_t\<close> is the field \<^verbatim>\<open>id\<close> (the value of
  \<^verbatim>\<open>Date.now()\<close>, an integer number of milliseconds). \<open>created_at\<close> is the instant, in
  milliseconds since the epoch, that the stored ISO-8601 string denotes:
  \<^verbatim>\<open>new Date(t.created_at)\<close> reads back exactly the instant \<^verbatim>\<open>toISOString()\<close> wrote.
  The four fields copied from a request body, and \<open>status\<close>, hold JSON values, each as
  \<^verbatim>\<open>JSON.stringify\<close> writes it: a ticket leaves a handler only through \<^verbatim>\<open>saveTickets\<close>
  and \<^verbatim>\<open>res.json\<close>, which both write it with \<^verbatim>\<open>JSON.stringify\<close>, so the handlers below
  record a value they assign to a field as \<open>stringify\<close> of it.
\<close>

record ticket =
  id_t :: int
  title :: json
  description :: json
  type :: json
  area :: json
  status :: json
  created_at :: int

text \<open>
  The Redis client: \<open>fault\<close> is the error message with which every command rejects
  while the server cannot be reached (\<open>None\<close> when it can), \<open>stored\<close> is the value under
  the key \<^verbatim>\<open>tickets\<close>, as the array \<^verbatim>\<open>JSON.parse\<close> decodes from it (\<open>None\<close> when the
  key holds nothing). The key is written by \<^verbatim>\<open>saveTickets\<close> only, so its text is one
  \<^verbatim>\<open>JSON.stringify\<close> wrote, and on tickets whose fields are of type \<open>json\<close>
  \<^verbatim>\<open>JSON.stringify\<close> followed by \<^verbatim>\<open>JSON.parse\<close> gives back the same array.
\<close>

record client =
  fault :: "string option"
  stored :: "ticket list option"

definition getTickets :: "client \<Rightarrow> string + ticket list" where
  "getTickets c =
     (case fault c of
        Some msg \<Rightarrow> Inl msg
      | None \<Rightarrow> (case stored c of None \<Rightarrow> Inr [] | Some data \<Rightarrow> Inr data))"

definition saveTickets :: "ticket list \<Rightarrow> client \<Rightarrow> string + client" where
  "saveTickets tickets c =
     (case fault c of
        Some msg \<Rightarrow> Inl msg
      | None \<Rightarrow> Inr (c\<lparr>stored := Some tickets\<rparr>))"

subsection \<open>Requests and responses (server.js)\<close>

text \<open>\<^verbatim>\<open>req.body\<close>: a JSON object, read field by field by the destructuring
  \<^verbatim>\<open>const { title, ... } = req.body\<close>; a field the object does not have reads as
  \<open>None\<close> (so an array as body reads as the object with no field), and fields the
  handlers do not name are ignored.\<close>

type_synonym body = "string \<rightharpoonup> jsvalue"

datatype payload =
    RTickets "ticket list"
  | RTicket ticket
  | RError string
  | RMessage string

record response =
  status_code :: nat
  json :: payload

definition respond :: "nat \<Rightarrow> payload \<Rightarrow> response" where
  "respond n p = \<lparr>status_code = n, json = p\<rparr>"

text \<open>\<^verbatim>\<open>app.get('/api/tickets')\<close>\<close>

definition get_tickets :: "client \<Rightarrow> response \<times> client" where
  "get_tickets c =
     (case getTickets c of
        Inl msg \<Rightarrow> (respond 500 (RError msg), c)
      | Inr tickets \<Rightarrow>
          (respond 200 (RTickets (sort_cmp (\<lambda>a b. created_at b - created_at a) tickets)), c))"

text \<open>\<^verbatim>\<open>app.post('/api/tickets')\<close>. \<open>now\<close> is what \<^verbatim>\<open>Date.now()\<close> returns and \<open>date\<close>
  the instant of the later \<^verbatim>\<open>new Date()\<close>.\<close>

definition post_tickets :: "int \<Rightarrow> int \<Rightarrow> body \<Rightarrow> client \<Rightarrow> response \<times> client" where
  "post_tickets now date b c =
     (case b ''title'' of
        None \<Rightarrow> (respond 400 (RError ''Title is required''), c)
      | Some title_v \<Rightarrow>
          if \<not> truthy (Some title_v) then (respond 400 (RError ''Title is required''), c)
          else
            let newTicket = \<lparr>
                  id_t = now,
                  title = stringify title_v,
                  description = stringify (js_or (b ''description'') (JStr '''')),
                  type = stringify (js_or (b ''type'') (JStr ''General Inquiry'')),
                  area = stringify (js_or (b ''area'') (JStr ''IT Support'')),
                  status = JStr ''open'',
                  created_at = date\<rparr>
            in (case getTickets c of
                  Inl msg \<Rightarrow> (respond 500 (RError msg), c)
                | Inr tickets \<Rightarrow>
                    (case saveTickets (tickets @ [newTicket]) c of
                       Inl msg \<Rightarrow> (respond 500 (RError msg), c)
                     | Inr c' \<Rightarrow> (respond 201 (RTicket newTicket), c'))))"

text \<open>\<^verbatim>\<open>app.put('/api/tickets/:id')\<close>. \<open>pid\<close> is the value of \<^verbatim>\<open>parseInt(id)\<close> for the
  path parameter: \<open>None\<close> when it is \<^verbatim>\<open>NaN\<close>, which \<^verbatim>\<open>===\<close> equates with no number.\<close>

definition validStatuses :: "string list" where
  "validStatuses = [''open'', ''in-progress'', ''closed'']"

text \<open>The assignments under \<^verbatim>\<open>// Update fields if provided\<close>, applied in the source's
  order to the ticket at \<^verbatim>\<open>ticketIndex\<close>: a field is assigned when the body has it
  (\<^verbatim>\<open>!== undefined\<close>), the status only when \<^verbatim>\<open>validStatuses\<close> includes it.\<close>

definition put_fields :: "body \<Rightarrow> ticket \<Rightarrow> ticket" where
  "put_fields b t0 =
     (let t1 = (case b ''title'' of None \<Rightarrow> t0 | Some v \<Rightarrow> t0\<lparr>title := stringify v\<rparr>);
          t2 = (case b ''description'' of None \<Rightarrow> t1 | Some v \<Rightarrow> t1\<lparr>description := stringify v\<rparr>);
          t3 = (case b ''type'' of None \<Rightarrow> t2 | Some v \<Rightarrow> t2\<lparr>type := stringify v\<rparr>);
          t4 = (case b ''area'' of None \<Rightarrow> t3 | Some v \<Rightarrow> t3\<lparr>area := stringify v\<rparr>)
      in case b ''status'' of
           None \<Rightarrow> t4
         | Some v \<Rightarrow> if includes_js validStatuses v then t4\<lparr>status := stringify v\<rparr> else t4)"

definition put_ticket :: "int option \<Rightarrow> body \<Rightarrow> client \<Rightarrow> response \<times> client" where
  "put_ticket pid b c =
     (case getTickets c of
        Inl msg \<Rightarrow> (respond 500 (RError msg), c)
      | Inr tickets \<Rightarrow>
          let ticketIndex = findIndex (\<lambda>t. Some (id_t t) = pid) tickets
          in if ticketIndex = - 1 then (respond 404 (RError ''Ticket not found''), c)
             else
               let i = nat ticketIndex;
                   tickets' = list_update tickets i (put_fields b (tickets ! i))
               in (case saveTickets tickets' c of
                     Inl msg \<Rightarrow> (respond 500 (RError msg), c)
                   | Inr c' \<Rightarrow> (respond 200 (RTicket (tickets' ! i)), c')))"

text \<open>\<^verbatim>\<open>app.delete('/api/tickets/:id')\<close>\<close>

definition delete_ticket :: "int option \<Rightarrow> client \<Rightarrow> response \<times> client" where
  "delete_ticket pid c =
     (case getTickets c of
        Inl msg \<Rightarrow> (respond 500 (RError msg), c)
      | Inr tickets \<Rightarrow>
          let ticketIndex = findIndex (\<lambda>t. Some (id_t t) = pid) tickets
          in if ticketIndex = - 1 then (respond 404 (RError ''Ticket not found''), c)
             else
               (case saveTickets (filter (\<lambda>t. Some (id_t t) \<noteq> pid) tickets) c of
                  Inl msg \<Rightarrow> (respond 500 (RError msg), c)
                | Inr c' \<Rightarrow> (respond 200 (RMessage ''Ticket deleted successfully''), c')))"

subsection \<open>Example data\<close>

text \<open>A ticket with the default fields, and a reachable client holding a collection.\<close>

abbreviation example_ticket :: "int \<Rightarrow> string \<Rightarrow> int \<Rightarrow> ticket" where
  "example_ticket n s d \<equiv>
     \<lparr>id_t = n, title = JStr s, description = JStr '''', type = JStr ''General Inquiry'',
      area = JStr ''IT Support'', status = JStr ''open'', created_at = d\<rparr>"

abbreviation client_with :: "ticket list \<Rightarrow> client" where
  "client_with ts \<equiv> \<lparr>fault = None, stored = Some ts\<rparr>"

section \<open>Properties\<close>

subsection \<open>Array operations\<close>

lemma findIndex_ge: "- 1 \<le> findIndex p xs"
  by (induction xs) (auto simp: Let_def)

lemma findIndex_none: "(findIndex p xs = - 1) = (\<forall>x\<in>set xs. \<not> p x)"
proof (induction xs)
  case Nil
  show ?case by simp
next
  case (Cons x xs)
  have "- 1 \<le> findIndex p xs" by (rule findIndex_ge)
  with Cons show ?case by (auto simp: Let_def)
qed

lemma findIndex_found:
  "findIndex p xs \<noteq> - 1 \<Longrightarrow>
     nat (findIndex p xs) < length xs \<and> p (xs ! nat (findIndex p xs))"
proof (induction xs)
  case Nil
  then show ?case by simp
next
  case (Cons x xs)
  show ?case
  proof (cases "p x")
    case True
    then show ?thesis by simp
  next
    case False
    with Cons.prems have ne: "findIndex p xs \<noteq> - 1" by (auto simp: Let_def split: if_splits)
    have ge: "- 1 \<le> findIndex p xs" by (rule findIndex_ge)
    from ne ge have pos: "0 \<le> findIndex p xs" by arith
    then have "nat (findIndex p xs + 1) = Suc (nat (findIndex p xs))" by arith
    with False ne Cons.IH [OF ne] show ?thesis by (simp add: Let_def)
  qed
qed

lemma mset_insert_cmp: "mset (insert_cmp cmp a bs) = add_mset a (mset bs)"
  by (induction bs) auto

lemma mset_sort_cmp: "mset (sort_cmp cmp xs) = mset xs"
  by (induction xs) (auto simp: mset_insert_cmp)

lemma set_insert_cmp: "set (insert_cmp cmp a bs) = insert a (set bs)"
  by (induction bs) auto

lemma desc_insert_cmp:
  "sorted_wrt (\<lambda>a b. created_at b \<le> created_at a) bs \<Longrightarrow>
   sorted_wrt (\<lambda>a b. created_at b \<le> created_at a)
     (insert_cmp (\<lambda>a b. created_at b - created_at a) x bs)"
  by (induction bs) (auto simp: set_insert_cmp)

lemma desc_sort_cmp:
  "sorted_wrt (\<lambda>a b. created_at b \<le> created_at a)
     (sort_cmp (\<lambda>a b. created_at b - created_at a) xs)"
  by (induction xs) (auto simp: desc_insert_cmp)

lemma three_desc:
  assumes "mset ys = {#t1, t2, t3#}"
    and "created_at t1 < created_at t2" "created_at t2 < created_at t3"
    and "sorted_wrt (\<lambda>a b. created_at b \<le> created_at a) ys"
  shows "ys = [t3, t2, t1]"
proof -
  from assms(1) have "size (mset ys) = 3" by simp
  then have "length ys = 3" by simp
  then obtain x y z where ys: "ys = [x, y, z]"
    by (auto simp: numeral_3_eq_3 length_Suc_conv)
  from assms(1) have "set ys = {t1, t2, t3}" by (metis set_mset_mset set_mset_add_mset_insert set_mset_empty)
  with ys have s: "{x, y, z} = {t1, t2, t3}" by simp
  from assms(4) ys have o: "created_at y \<le> created_at x" "created_at z \<le> created_at y" by auto
  have "t3 \<in> {x, y, z}" "t2 \<in> {x, y, z}" "t1 \<in> {x, y, z}" "x \<in> {t1, t2, t3}" "y \<in> {t1, t2, t3}" "z \<in> {t1, t2, t3}" using s by auto
  with o assms(2,3) have "x = t3 \<and> y = t2 \<and> z = t1"
    by auto
  with ys show ?thesis by simp
qed

subsection \<open>The store and the handlers, step by step\<close>

lemma getTickets_Inr: "getTickets c = Inr tickets \<Longrightarrow> fault c = None"
  by (auto simp: getTickets_def split: option.splits)

lemma saveTickets_ok: "fault c = None \<Longrightarrow> saveTickets ts c = Inr (c\<lparr>stored := Some ts\<rparr>)"
  by (simp add: saveTickets_def)

lemma post_tickets_created:
  assumes "b ''title'' = Some tv" "truthy (Some tv)" "getTickets c = Inr tickets"
  shows "post_tickets now date b c =
     (respond 201 (RTicket \<lparr>id_t = now, title = stringify tv,
          description = stringify (js_or (b ''description'') (JStr '''')),
          type = stringify (js_or (b ''type'') (JStr ''General Inquiry'')),
          area = stringify (js_or (b ''area'') (JStr ''IT Support'')),
          status = JStr ''open'', created_at = date\<rparr>),
      c\<lparr>stored := Some (tickets @ [\<lparr>id_t = now, title = stringify tv,
          description = stringify (js_or (b ''description'') (JStr '''')),
          type = stringify (js_or (b ''type'') (JStr ''General Inquiry'')),
          area = stringify (js_or (b ''area'') (JStr ''IT Support'')),
          status = JStr ''open'', created_at = date\<rparr>])\<rparr>)"
  using assms getTickets_Inr [OF assms(3)]
  by (simp add: post_tickets_def Let_def saveTickets_ok)

lemma put_ticket_found:
  assumes "getTickets c = Inr tickets" "\<exists>t\<in>set tickets. Some (id_t t) = pid"
  shows "put_ticket pid b c =
     (respond 200 (RTicket (put_fields b (tickets ! nat (findIndex (\<lambda>t. Some (id_t t) = pid) tickets)))),
      c\<lparr>stored := Some (list_update tickets (nat (findIndex (\<lambda>t. Some (id_t t) = pid) tickets))
          (put_fields b (tickets ! nat (findIndex (\<lambda>t. Some (id_t t) = pid) tickets))))\<rparr>)"
proof -
  let ?i = "findIndex (\<lambda>t. Some (id_t t) = pid) tickets"
  from assms(2) have ne: "?i \<noteq> - 1" by (simp add: findIndex_none)
  from findIndex_found [OF ne] have lt: "nat ?i < length tickets" by simp
  from ne lt assms(1) getTickets_Inr [OF assms(1)] show ?thesis
    by (simp add: put_ticket_def Let_def saveTickets_ok)
qed

lemma put_ticket_missing:
  assumes "getTickets c = Inr tickets" "\<forall>t\<in>set tickets. Some (id_t t) \<noteq> pid"
  shows "put_ticket pid b c = (respond 404 (RError ''Ticket not found''), c)"
  using assms by (simp add: put_ticket_def Let_def findIndex_none)

lemma delete_ticket_missing:
  assumes "getTickets c = Inr tickets" "\<forall>t\<in>set tickets. Some (id_t t) \<noteq> pid"
  shows "delete_ticket pid c = (respond 404 (RError ''Ticket not found''), c)"
  using assms by (simp add: delete_ticket_def Let_def findIndex_none)

lemma delete_ticket_found:
  assumes "getTickets c = Inr tickets" "\<exists>t\<in>set tickets. Some (id_t t) = pid"
  shows "delete_ticket pid c =
     (respond 200 (RMessage ''Ticket deleted successfully''),
      c\<lparr>stored := Some (filter (\<lambda>t. Some (id_t t) \<noteq> pid) tickets)\<rparr>)"
proof -
  from assms(2) have "findIndex (\<lambda>t. Some (id_t t) = pid) tickets \<noteq> - 1"
    by (simp add: findIndex_none)
  with assms(1) getTickets_Inr [OF assms(1)] show ?thesis
    by (simp add: delete_ticket_def Let_def saveTickets_ok)
qed

lemma get_tickets_ok:
  "getTickets c = Inr tickets \<Longrightarrow>
   get_tickets c = (respond 200 (RTickets (sort_cmp (\<lambda>a b. created_at b - created_at a) tickets)), c)"
  by (simp add: get_tickets_def)

lemma getTickets_saved:
  "fault c = None \<Longrightarrow> getTickets (c\<lparr>stored := Some ts\<rparr>) = Inr ts"
  by (simp add: getTickets_def)

subsection \<open>Rejected requests and listing\<close>

text \<open>
  Claim C5. A POST whose body has no title, or the empty string as title, is answered
  with status 400 and the error \<^verbatim>\<open>Title is required\<close>, and the client and the stored
  collection are as before. The store is not read on this path, so this holds also while
  the store cannot be reached.
\<close>

theorem post_without_title_rejected:
  assumes "b ''title'' = None \<or> b ''title'' = Some (JStr '''')"
  shows "post_tickets now date b c = (respond 400 (RError ''Title is required''), c)"
  using assms by (auto simp: post_tickets_def)

theorem post_without_title_rejected_witness:
  "((Map.empty :: body) ''title'' = None \<or> (Map.empty :: body) ''title'' = Some (JStr ''''))
   \<and> post_tickets 1000 1001 Map.empty (client_with [example_ticket 1 ''a'' 1])
       = (respond 400 (RError ''Title is required''), client_with [example_ticket 1 ''a'' 1])
   \<and> post_tickets 1000 1001 [''title'' \<mapsto> JStr ''''] (client_with [example_ticket 1 ''a'' 1])
       = (respond 400 (RError ''Title is required''), client_with [example_ticket 1 ''a'' 1])"
  using post_without_title_rejected [of Map.empty 1000 1001 "client_with [example_ticket 1 ''a'' 1]"]
    post_without_title_rejected [of "[''title'' \<mapsto> JStr '''']" 1000 1001
      "client_with [example_ticket 1 ''a'' 1]"]
  by simp

text \<open>
  Claim C4. When the store can be read and no ticket of the collection has the requested
  id (also when the path parameter is no number at all), PUT and DELETE both answer 404
  and leave the client, with its stored collection, as it was: nothing is written.
\<close>

theorem unknown_id_not_found:
  assumes "getTickets c = Inr tickets"
    and "\<forall>t\<in>set tickets. Some (id_t t) \<noteq> pid"
  shows "put_ticket pid b c = (respond 404 (RError ''Ticket not found''), c)
       \<and> delete_ticket pid c = (respond 404 (RError ''Ticket not found''), c)"
  using assms by (simp add: put_ticket_missing delete_ticket_missing)

theorem unknown_id_not_found_witness:
  "getTickets (client_with [example_ticket 1 ''a'' 1]) = Inr [example_ticket 1 ''a'' 1]
   \<and> Some (id_t (example_ticket 1 ''a'' 1)) \<noteq> Some 2
   \<and> put_ticket (Some 2) [''status'' \<mapsto> JStr ''closed''] (client_with [example_ticket 1 ''a'' 1])
       = (respond 404 (RError ''Ticket not found''), client_with [example_ticket 1 ''a'' 1])
   \<and> delete_ticket (Some 2) (client_with [example_ticket 1 ''a'' 1])
       = (respond 404 (RError ''Ticket not found''), client_with [example_ticket 1 ''a'' 1])"
proof -
  have g: "getTickets (client_with [example_ticket 1 ''a'' 1]) = Inr [example_ticket 1 ''a'' 1]"
    by (simp add: getTickets_def)
  have n: "\<forall>t\<in>set [example_ticket 1 ''a'' 1]. Some (id_t t) \<noteq> Some 2"
    by simp
  from unknown_id_not_found [OF g n, of "[''status'' \<mapsto> JStr ''closed'']"] g n
  show ?thesis by simp
qed

text \<open>
  Claim C6. When the store can be read, List answers 200 with a list that holds exactly
  the tickets of the stored collection, each as often as it is stored (none is filtered
  out, none is added), in descending order of \<open>created_at\<close>; the store is not written.
  In particular a collection of three tickets created at instants \<open>t1 < t2 < t3\<close>,
  stored in any order, is listed as \<open>[t3, t2, t1]\<close>.
\<close>

theorem list_sorted_descending:
  assumes "getTickets c = Inr tickets"
  shows "\<exists>listed. get_tickets c = (respond 200 (RTickets listed), c)
       \<and> mset listed = mset tickets
       \<and> sorted_wrt (\<lambda>a b. created_at b \<le> created_at a) listed
       \<and> (\<forall>t1 t2 t3. mset tickets = {#t1, t2, t3#}
              \<and> created_at t1 < created_at t2 \<and> created_at t2 < created_at t3
            \<longrightarrow> listed = [t3, t2, t1])"
proof -
  let ?l = "sort_cmp (\<lambda>a b. created_at b - created_at a) tickets"
  have r: "get_tickets c = (respond 200 (RTickets ?l), c)"
    using assms by (rule get_tickets_ok)
  have m: "mset ?l = mset tickets" by (rule mset_sort_cmp)
  have s: "sorted_wrt (\<lambda>a b. created_at b \<le> created_at a) ?l" by (rule desc_sort_cmp)
  have "\<forall>t1 t2 t3. mset tickets = {#t1, t2, t3#}
              \<and> created_at t1 < created_at t2 \<and> created_at t2 < created_at t3
            \<longrightarrow> ?l = [t3, t2, t1]"
    using three_desc [OF _ _ _ s] m by auto
  with r m s show ?thesis by blast
qed

theorem list_sorted_descending_witness:
  "getTickets (client_with [example_ticket 2 ''b'' 20, example_ticket 1 ''a'' 10, example_ticket 3 ''c'' 30])
     = Inr [example_ticket 2 ''b'' 20, example_ticket 1 ''a'' 10, example_ticket 3 ''c'' 30]
   \<and> get_tickets (client_with [example_ticket 2 ''b'' 20, example_ticket 1 ''a'' 10, example_ticket 3 ''c'' 30])
     = (respond 200 (RTickets [example_ticket 3 ''c'' 30, example_ticket 2 ''b'' 20, example_ticket 1 ''a'' 10]),
        client_with [example_ticket 2 ''b'' 20, example_ticket 1 ''a'' 10, example_ticket 3 ''c'' 30])"
proof -
  let ?ts = "[example_ticket 2 ''b'' 20, example_ticket 1 ''a'' 10, example_ticket 3 ''c'' 30]"
  have g: "getTickets (client_with ?ts) = Inr ?ts"
    by (simp add: getTickets_def)
  have m: "mset ?ts = {#example_ticket 1 ''a'' 10, example_ticket 2 ''b'' 20, example_ticket 3 ''c'' 30#}"
    by simp
  from list_sorted_descending [OF g] obtain listed where
    l: "get_tickets (client_with ?ts) = (respond 200 (RTickets listed), client_with ?ts)"
    and t: "\<forall>t1 t2 t3. mset ?ts = {#t1, t2, t3#}
              \<and> created_at t1 < created_at t2 \<and> created_at t2 < created_at t3
            \<longrightarrow> listed = [t3, t2, t1]"
    by blast
  from t m have "listed = [example_ticket 3 ''c'' 30, example_ticket 2 ''b'' 20, example_ticket 1 ''a'' 10]"
    by simp
  with l g show ?thesis by simp
qed

subsection \<open>Updating a ticket\<close>

lemma includes_validStatuses:
  "includes_js validStatuses v = (v \<in> {JStr ''open'', JStr ''in-progress'', JStr ''closed''})"
  by (cases v) (auto simp: includes_js_def validStatuses_def)

lemma put_fields_status_only:
  assumes "b ''title'' = None" "b ''description'' = None" "b ''type'' = None" "b ''area'' = None"
    and "b ''status'' = Some v" "includes_js validStatuses v"
  shows "put_fields b t = t\<lparr>status := stringify v\<rparr>"
  using assms by (simp add: put_fields_def)

lemma put_fields_status_ignored:
  assumes "b ''status'' = Some v" "\<not> includes_js validStatuses v"
  shows "status (put_fields b t) = status t"
  using assms by (simp add: put_fields_def Let_def split: option.splits)

lemma put_fields_keeps: "id_t (put_fields b t) = id_t t \<and> created_at (put_fields b t) = created_at t"
  by (simp add: put_fields_def Let_def split: option.splits)

lemma findIndex_id:
  assumes "n \<in> id_t ` set tickets"
  shows "nat (findIndex (\<lambda>t. Some (id_t t) = Some n) tickets) < length tickets
       \<and> id_t (tickets ! nat (findIndex (\<lambda>t. Some (id_t t) = Some n) tickets)) = n"
proof -
  from assms have "findIndex (\<lambda>t. Some (id_t t) = Some n) tickets \<noteq> - 1"
    by (auto simp: findIndex_none)
  from findIndex_found [OF this] show ?thesis by simp
qed

text \<open>
  Claim C1. When the store can be read, some ticket of the collection has the requested
  id, and the body supplies \<open>status = "closed"\<close> and none of title, description, type and
  area, then PUT answers 200 with the updated record and stores the collection in which
  that ticket (the first one with the id) has status \<open>"closed"\<close> and the same title,
  description, type, area, id and created_at as before, every other position of the
  collection holding the ticket it held before.
\<close>

theorem put_status_closed_changes_only_status:
  assumes "getTickets c = Inr tickets"
    and "n \<in> id_t ` set tickets"
    and "b ''title'' = None" "b ''description'' = None" "b ''type'' = None" "b ''area'' = None"
    and "b ''status'' = Some (JStr ''closed'')"
  shows "\<exists>i t' tickets'. i < length tickets \<and> id_t (tickets ! i) = n
       \<and> put_ticket (Some n) b c = (respond 200 (RTicket t'), c\<lparr>stored := Some tickets'\<rparr>)
       \<and> length tickets' = length tickets \<and> tickets' ! i = t'
       \<and> status t' = JStr ''closed''
       \<and> title t' = title (tickets ! i) \<and> description t' = description (tickets ! i)
       \<and> type t' = type (tickets ! i) \<and> area t' = area (tickets ! i)
       \<and> id_t t' = id_t (tickets ! i) \<and> created_at t' = created_at (tickets ! i)
       \<and> (\<forall>j<length tickets. j \<noteq> i \<longrightarrow> tickets' ! j = tickets ! j)"
proof -
  let ?i = "nat (findIndex (\<lambda>t. Some (id_t t) = Some n) tickets)"
  let ?t = "(tickets ! ?i)\<lparr>status := JStr ''closed''\<rparr>"
  from findIndex_id [OF assms(2)] have lt: "?i < length tickets" and idn: "id_t (tickets ! ?i) = n"
    by simp_all
  have v: "includes_js validStatuses (JStr ''closed'' :: jsvalue)"
    by (simp add: includes_validStatuses)
  have pf: "put_fields b (tickets ! ?i) = ?t"
    using put_fields_status_only [OF assms(3-7) v, of "tickets ! ?i"] by simp
  from assms(2) have ex: "\<exists>t\<in>set tickets. Some (id_t t) = Some n" by auto
  have r: "put_ticket (Some n) b c =
      (respond 200 (RTicket ?t), c\<lparr>stored := Some (list_update tickets ?i ?t)\<rparr>)"
    using put_ticket_found [OF assms(1) ex, of b] pf by simp
  have others: "\<forall>j<length tickets. j \<noteq> ?i \<longrightarrow> list_update tickets ?i ?t ! j = tickets ! j"
    by simp
  have here: "list_update tickets ?i ?t ! ?i = ?t" using lt by simp
  show ?thesis
    apply (rule exI [of _ ?i], rule exI [of _ ?t], rule exI [of _ "list_update tickets ?i ?t"])
    using lt idn r others here by simp
qed

theorem put_status_closed_changes_only_status_witness:
  "getTickets (client_with [example_ticket 1 ''a'' 10, example_ticket 2 ''b'' 20])
     = Inr [example_ticket 1 ''a'' 10, example_ticket 2 ''b'' 20]
   \<and> 2 \<in> id_t ` set [example_ticket 1 ''a'' 10, example_ticket 2 ''b'' 20]
   \<and> ([''status'' \<mapsto> JStr ''closed''] :: body) ''title'' = None
   \<and> ([''status'' \<mapsto> JStr ''closed''] :: body) ''status'' = Some (JStr ''closed'')
   \<and> put_ticket (Some 2) [''status'' \<mapsto> JStr ''closed'']
        (client_with [example_ticket 1 ''a'' 10, example_ticket 2 ''b'' 20])
     = (respond 200 (RTicket ((example_ticket 2 ''b'' 20)\<lparr>status := JStr ''closed''\<rparr>)),
        client_with [example_ticket 1 ''a'' 10, (example_ticket 2 ''b'' 20)\<lparr>status := JStr ''closed''\<rparr>])"
proof -
  let ?ts = "[example_ticket 1 ''a'' 10, example_ticket 2 ''b'' 20]"
  let ?b = "[''status'' \<mapsto> JStr ''closed''] :: body"
  have g: "getTickets (client_with ?ts) = Inr ?ts" by (simp add: getTickets_def)
  have m: "2 \<in> id_t ` set ?ts" by simp
  have b: "?b ''title'' = None" "?b ''description'' = None" "?b ''type'' = None"
    "?b ''area'' = None" "?b ''status'' = Some (JStr ''closed'')"
    by simp_all
  from put_status_closed_changes_only_status [OF g m b] obtain i t' tickets' where
    i: "i < length ?ts" "id_t (?ts ! i) = 2"
    and r: "put_ticket (Some 2) ?b (client_with ?ts) = (respond 200 (RTicket t'), (client_with ?ts)\<lparr>stored := Some tickets'\<rparr>)"
    and l: "length tickets' = length ?ts" "tickets' ! i = t'"
    and f: "status t' = JStr ''closed''" "title t' = title (?ts ! i)" "description t' = description (?ts ! i)"
      "type t' = type (?ts ! i)" "area t' = area (?ts ! i)" "id_t t' = id_t (?ts ! i)"
      "created_at t' = created_at (?ts ! i)"
    and o: "\<forall>j<length ?ts. j \<noteq> i \<longrightarrow> tickets' ! j = ?ts ! j"
    by blast
  from i have i1: "i = 1" by (cases i) auto
  from f i1 have t': "t' = (example_ticket 2 ''b'' 20)\<lparr>status := JStr ''closed''\<rparr>" by simp
  from o i1 have "tickets' ! 0 = example_ticket 1 ''a'' 10" by simp
  with l i1 t' have "tickets' = [example_ticket 1 ''a'' 10, (example_ticket 2 ''b'' 20)\<lparr>status := JStr ''closed''\<rparr>]"
    by (auto simp: length_Suc_conv numeral_2_eq_2)
  with r t' g m b show ?thesis by simp
qed

text \<open>
  Claim C3. When the store can be read, some ticket of the collection has the requested
  id, and the body supplies a status that is none of \<open>"open"\<close>, \<open>"in-progress"\<close> and
  \<open>"closed"\<close> (a string outside the set, or a value that is no string), PUT does not
  reject the request: it answers 200 with the record, and in the stored collection the
  status of that ticket, and of every other ticket, is what it was before. The other
  supplied fields, if any, are applied.
\<close>

theorem put_invalid_status_ignored:
  assumes "getTickets c = Inr tickets"
    and "n \<in> id_t ` set tickets"
    and "b ''status'' = Some v"
    and "v \<notin> {JStr ''open'', JStr ''in-progress'', JStr ''closed''}"
  shows "\<exists>i t' tickets'. i < length tickets \<and> id_t (tickets ! i) = n
       \<and> put_ticket (Some n) b c = (respond 200 (RTicket t'), c\<lparr>stored := Some tickets'\<rparr>)
       \<and> tickets' ! i = t' \<and> status t' = status (tickets ! i)
       \<and> map status tickets' = map status tickets"
proof -
  let ?i = "nat (findIndex (\<lambda>t. Some (id_t t) = Some n) tickets)"
  let ?t = "put_fields b (tickets ! ?i)"
  from findIndex_id [OF assms(2)] have lt: "?i < length tickets" and idn: "id_t (tickets ! ?i) = n"
    by simp_all
  from assms(4) have v: "\<not> includes_js validStatuses v"
    by (simp only: includes_validStatuses not_False_eq_True)
  have st: "status ?t = status (tickets ! ?i)"
    using assms(3) v by (rule put_fields_status_ignored)
  from assms(2) have ex: "\<exists>t\<in>set tickets. Some (id_t t) = Some n" by auto
  have r: "put_ticket (Some n) b c =
      (respond 200 (RTicket ?t), c\<lparr>stored := Some (list_update tickets ?i ?t)\<rparr>)"
    using put_ticket_found [OF assms(1) ex, of b] by simp
  have here: "list_update tickets ?i ?t ! ?i = ?t" using lt by simp
  have "map status (list_update tickets ?i ?t) = list_update (map status tickets) ?i (status ?t)"
    by (rule map_update)
  also have "\<dots> = map status tickets" using st lt by (simp add: list_update_same_conv)
  finally have all: "map status (list_update tickets ?i ?t) = map status tickets" .
  show ?thesis
    apply (rule exI [of _ ?i], rule exI [of _ ?t], rule exI [of _ "list_update tickets ?i ?t"])
    using lt idn r here st all by simp
qed

theorem put_invalid_status_ignored_witness:
  "getTickets (client_with [example_ticket 1 ''a'' 10]) = Inr [example_ticket 1 ''a'' 10]
   \<and> 1 \<in> id_t ` set [example_ticket 1 ''a'' 10]
   \<and> ([''status'' \<mapsto> JStr ''archived''] :: body) ''status'' = Some (JStr ''archived'')
   \<and> (JStr ''archived'' :: jsvalue) \<notin> {JStr ''open'', JStr ''in-progress'', JStr ''closed''}
   \<and> (\<exists>i t' tickets'. i < length [example_ticket 1 ''a'' 10]
       \<and> id_t ([example_ticket 1 ''a'' 10] ! i) = 1
       \<and> put_ticket (Some 1) [''status'' \<mapsto> JStr ''archived''] (client_with [example_ticket 1 ''a'' 10])
           = (respond 200 (RTicket t'), (client_with [example_ticket 1 ''a'' 10])\<lparr>stored := Some tickets'\<rparr>)
       \<and> tickets' ! i = t' \<and> status t' = status ([example_ticket 1 ''a'' 10] ! i)
       \<and> map status tickets' = map status [example_ticket 1 ''a'' 10])
   \<and> put_ticket (Some 1) [''status'' \<mapsto> JStr ''archived''] (client_with [example_ticket 1 ''a'' 10])
       = (respond 200 (RTicket (example_ticket 1 ''a'' 10)), client_with [example_ticket 1 ''a'' 10])"
proof -
  let ?ts = "[example_ticket 1 ''a'' 10]"
  let ?b = "[''status'' \<mapsto> JStr ''archived''] :: body"
  have g: "getTickets (client_with ?ts) = Inr ?ts" by (simp add: getTickets_def)
  have m: "1 \<in> id_t ` set ?ts" by simp
  have s: "?b ''status'' = Some (JStr ''archived'')" by simp
  have v: "(JStr ''archived'' :: jsvalue) \<notin> {JStr ''open'', JStr ''in-progress'', JStr ''closed''}"
    by simp
  have e: "put_ticket (Some 1) ?b (client_with ?ts) = (respond 200 (RTicket (example_ticket 1 ''a'' 10)), client_with ?ts)"
    by (simp add: put_ticket_def getTickets_def saveTickets_def put_fields_def includes_js_def
        validStatuses_def Let_def)
  from put_invalid_status_ignored [of "client_with ?ts" ?ts 1 ?b "JStr ''archived''", OF g m s v]
    g m s v e
  show ?thesis by simp
qed

subsection \<open>Deleting a ticket, and the ids of created tickets\<close>

lemma filter_id_distinct:
  "distinct (map f xs) \<Longrightarrow> y \<in> f ` set xs \<Longrightarrow> length (filter (\<lambda>t. f t = y) xs) = 1"
proof (induction xs)
  case Nil
  then show ?case by simp
next
  case (Cons x xs)
  show ?case
  proof (cases "f x = y")
    case True
    from Cons.prems(1) have "f x \<notin> f ` set xs" by simp
    with True have "\<forall>t\<in>set xs. f t \<noteq> y" by (metis imageI)
    then have "filter (\<lambda>t. f t = y) xs = []" by (simp add: filter_empty_conv)
    with True show ?thesis by simp
  next
    case False
    with Cons show ?thesis by auto
  qed
qed

text \<open>
  Claim C9, as the code has it. When the store can be read and some ticket of the
  collection has the requested id, DELETE answers 200 and stores the collection without
  the tickets of that id: no ticket of the id is left, the size has gone down by the
  number of tickets that had the id, which is exactly one when the ids of the collection
  are pairwise distinct, and a List that follows returns no ticket of the id.
\<close>

theorem delete_removes_every_ticket_of_id:
  assumes "getTickets c = Inr tickets"
    and "n \<in> id_t ` set tickets"
  shows "\<exists>tickets' c'. delete_ticket (Some n) c
           = (respond 200 (RMessage ''Ticket deleted successfully''), c')
       \<and> c' = c\<lparr>stored := Some tickets'\<rparr>
       \<and> tickets' = filter (\<lambda>t. id_t t \<noteq> n) tickets
       \<and> n \<notin> id_t ` set tickets'
       \<and> length tickets' + length (filter (\<lambda>t. id_t t = n) tickets) = length tickets
       \<and> (distinct (map id_t tickets) \<longrightarrow> length tickets' + 1 = length tickets)
       \<and> (\<exists>listed. get_tickets c' = (respond 200 (RTickets listed), c')
             \<and> n \<notin> id_t ` set listed)"
proof -
  let ?ts = "filter (\<lambda>t. id_t t \<noteq> n) tickets"
  let ?c = "c\<lparr>stored := Some ?ts\<rparr>"
  let ?l = "sort_cmp (\<lambda>a b. created_at b - created_at a) ?ts"
  from assms(2) have ex: "\<exists>t\<in>set tickets. Some (id_t t) = Some n" by auto
  have r: "delete_ticket (Some n) c = (respond 200 (RMessage ''Ticket deleted successfully''), ?c)"
    using delete_ticket_found [OF assms(1) ex] by simp
  have gone: "n \<notin> id_t ` set ?ts" by auto
  have len: "length ?ts + length (filter (\<lambda>t. id_t t = n) tickets) = length tickets"
    using sum_length_filter_compl [of "\<lambda>t. id_t t = n" tickets] by simp
  have one: "distinct (map id_t tickets) \<longrightarrow> length ?ts + 1 = length tickets"
    using len filter_id_distinct [of id_t tickets n] assms(2) by auto
  have g: "getTickets ?c = Inr ?ts"
    using getTickets_Inr [OF assms(1)] by (simp add: getTickets_saved)
  have l: "get_tickets ?c = (respond 200 (RTickets ?l), ?c)"
    using g by (rule get_tickets_ok)
  have "set ?l = set ?ts" by (metis mset_sort_cmp set_mset_mset)
  with gone have nl: "n \<notin> id_t ` set ?l" by simp
  from r gone len one l nl show ?thesis by blast
qed

theorem delete_removes_every_ticket_of_id_witness:
  "getTickets (client_with [example_ticket 1 ''a'' 10, example_ticket 2 ''b'' 20])
     = Inr [example_ticket 1 ''a'' 10, example_ticket 2 ''b'' 20]
   \<and> 1 \<in> id_t ` set [example_ticket 1 ''a'' 10, example_ticket 2 ''b'' 20]
   \<and> delete_ticket (Some 1) (client_with [example_ticket 1 ''a'' 10, example_ticket 2 ''b'' 20])
     = (respond 200 (RMessage ''Ticket deleted successfully''), client_with [example_ticket 2 ''b'' 20])
   \<and> get_tickets (client_with [example_ticket 2 ''b'' 20])
     = (respond 200 (RTickets [example_ticket 2 ''b'' 20]), client_with [example_ticket 2 ''b'' 20])"
proof -
  let ?ts = "[example_ticket 1 ''a'' 10, example_ticket 2 ''b'' 20]"
  have g: "getTickets (client_with ?ts) = Inr ?ts" by (simp add: getTickets_def)
  have m: "1 \<in> id_t ` set ?ts" by simp
  from delete_removes_every_ticket_of_id [OF g m] obtain tickets' c' where
    r: "delete_ticket (Some 1) (client_with ?ts) = (respond 200 (RMessage ''Ticket deleted successfully''), c')"
    and c': "c' = (client_with ?ts)\<lparr>stored := Some tickets'\<rparr>"
    and t': "tickets' = filter (\<lambda>t. id_t t \<noteq> 1) ?ts"
    by blast
  from t' have "tickets' = [example_ticket 2 ''b'' 20]" by simp
  with c' have "c' = client_with [example_ticket 2 ''b'' 20]" by simp
  with r have d: "delete_ticket (Some 1) (client_with ?ts)
     = (respond 200 (RMessage ''Ticket deleted successfully''), client_with [example_ticket 2 ''b'' 20])"
    by simp
  have l: "get_tickets (client_with [example_ticket 2 ''b'' 20])
     = (respond 200 (RTickets [example_ticket 2 ''b'' 20]), client_with [example_ticket 2 ''b'' 20])"
    by (simp add: get_tickets_def getTickets_def)
  from g m d l show ?thesis by simp
qed

text \<open>
  Claim C9 as stated fails where two tickets share an id, which two Create requests in
  the same millisecond produce: DELETE of that id removes both, and the size goes from
  two to zero.
\<close>

theorem delete_shared_id_removes_two:
  "getTickets (client_with [example_ticket 5 ''a'' 5, example_ticket 5 ''b'' 5])
     = Inr [example_ticket 5 ''a'' 5, example_ticket 5 ''b'' 5]
   \<and> delete_ticket (Some 5) (client_with [example_ticket 5 ''a'' 5, example_ticket 5 ''b'' 5])
     = (respond 200 (RMessage ''Ticket deleted successfully''), client_with [])
   \<and> length ([] :: ticket list) + 1 \<noteq> length [example_ticket 5 ''a'' 5, example_ticket 5 ''b'' 5]"
  by (simp add: delete_ticket_def getTickets_def saveTickets_def Let_def)

text \<open>
  Claim C8, as the code has it. The id of a created ticket is the reading of the clock
  and nothing compares it with the ids in the store. When the store can be read, its ids
  are pairwise distinct, the title is accepted and the clock reading differs from every
  id of the collection, Create appends a ticket with that id and the stored collection
  has pairwise distinct ids again.
\<close>

theorem post_fresh_id_keeps_ids_distinct:
  assumes "getTickets c = Inr tickets"
    and "distinct (map id_t tickets)"
    and "truthy (b ''title'')"
    and "now \<notin> id_t ` set tickets"
  shows "\<exists>t. post_tickets now date b c
           = (respond 201 (RTicket t), c\<lparr>stored := Some (tickets @ [t])\<rparr>)
       \<and> id_t t = now
       \<and> distinct (map id_t (tickets @ [t]))"
proof -
  from assms(3) obtain tv where tv: "b ''title'' = Some tv" by (cases "b ''title''") auto
  with assms(3) have tr: "truthy (Some tv)" by simp
  from post_tickets_created [where b = b and tv = tv and c = c and tickets = tickets
      and now = now and date = date, OF tv tr assms(1)] assms(2,4)
  show ?thesis by auto
qed

theorem post_fresh_id_keeps_ids_distinct_witness:
  "getTickets (client_with [example_ticket 5 ''a'' 5]) = Inr [example_ticket 5 ''a'' 5]
   \<and> distinct (map id_t [example_ticket 5 ''a'' 5])
   \<and> truthy ([''title'' \<mapsto> JStr ''b''] ''title'')
   \<and> 6 \<notin> id_t ` set [example_ticket 5 ''a'' 5]
   \<and> post_tickets 6 6 [''title'' \<mapsto> JStr ''b''] (client_with [example_ticket 5 ''a'' 5])
       = (respond 201 (RTicket (example_ticket 6 ''b'' 6)),
          client_with [example_ticket 5 ''a'' 5, example_ticket 6 ''b'' 6])
   \<and> (\<exists>t. post_tickets 6 6 [''title'' \<mapsto> JStr ''b''] (client_with [example_ticket 5 ''a'' 5])
           = (respond 201 (RTicket t),
              (client_with [example_ticket 5 ''a'' 5])\<lparr>stored := Some ([example_ticket 5 ''a'' 5] @ [t])\<rparr>)
       \<and> id_t t = 6
       \<and> distinct (map id_t ([example_ticket 5 ''a'' 5] @ [t])))"
proof -
  let ?ts = "[example_ticket 5 ''a'' 5]"
  let ?b = "[''title'' \<mapsto> JStr ''b''] :: body"
  have g: "getTickets (client_with ?ts) = Inr ?ts" by (simp add: getTickets_def)
  have d: "distinct (map id_t ?ts)" by simp
  have t: "truthy (?b ''title'')" by simp
  have n: "6 \<notin> id_t ` set ?ts" by simp
  have e: "post_tickets 6 6 ?b (client_with ?ts)
       = (respond 201 (RTicket (example_ticket 6 ''b'' 6)),
          client_with [example_ticket 5 ''a'' 5, example_ticket 6 ''b'' 6])"
    by (simp add: post_tickets_def getTickets_def saveTickets_def js_or_def Let_def)
  from post_fresh_id_keeps_ids_distinct [of "client_with ?ts" ?ts ?b 6 6, OF g d t n] g d t n e
  show ?thesis by simp
qed

text \<open>
  Claim C8 as stated fails when the clock reads a value that is already an id of the
  collection, as it does for a second Create in the same millisecond: the ids of the
  stored collection are then no longer pairwise distinct.
\<close>

theorem post_same_millisecond_repeats_id:
  "distinct (map id_t [example_ticket 5 ''a'' 5])
   \<and> post_tickets 5 5 [''title'' \<mapsto> JStr ''b''] (client_with [example_ticket 5 ''a'' 5])
       = (respond 201 (RTicket (example_ticket 5 ''b'' 5)),
          client_with [example_ticket 5 ''a'' 5, example_ticket 5 ''b'' 5])
   \<and> \<not> distinct (map id_t [example_ticket 5 ''a'' 5, example_ticket 5 ''b'' 5])"
  by (simp add: post_tickets_def getTickets_def saveTickets_def js_or_def Let_def)

subsection \<open>Creating a ticket, and the title of an updated ticket\<close>

lemma js_or_string: "s \<noteq> [] \<Longrightarrow> js_or (Some (JStr s)) d = JStr s"
  by (simp add: js_or_def)

lemma js_or_absent: "js_or None d = d"
  by (simp add: js_or_def)

lemma js_or_empty_string: "js_or (Some (JStr '''')) d = d"
  by (simp add: js_or_def)

lemma stringify_is_string: "(stringify x = JStr s) = (x = JStr s)"
  by (cases x) (auto split: number.splits)

lemma js_or_not_empty: "d \<noteq> JStr '''' \<Longrightarrow> stringify (js_or v d) \<noteq> JStr ''''"
  by (auto simp: js_or_def stringify_is_string split: option.splits)

text \<open>
  Claim C2, as the code has it. When the store can be read and the body has a non-empty
  string as title, Create answers 201 with a record that has the supplied title, status
  \<open>"open"\<close>, the clock reading as id and the current instant as created_at; the
  description is the supplied string, or \<open>""\<close> when the field is omitted; type and area
  are the supplied string when it is not empty, and the default (\<open>"General Inquiry"\<close>,
  \<open>"IT Support"\<close>) when the field is omitted or supplied as the empty string. The record
  is appended to the loaded collection, which is stored whole.
\<close>

theorem post_creates_ticket_with_defaults:
  assumes "getTickets c = Inr tickets"
    and "b ''title'' = Some (JStr s)"
    and "s \<noteq> []"
  shows "\<exists>t. post_tickets now date b c
           = (respond 201 (RTicket t), c\<lparr>stored := Some (tickets @ [t])\<rparr>)
       \<and> title t = JStr s
       \<and> (\<forall>d. b ''description'' = Some (JStr d) \<longrightarrow> description t = JStr d)
       \<and> (b ''description'' = None \<longrightarrow> description t = JStr '''')
       \<and> (\<forall>y. b ''type'' = Some (JStr y) \<and> y \<noteq> [] \<longrightarrow> type t = JStr y)
       \<and> (b ''type'' = None \<or> b ''type'' = Some (JStr '''')
            \<longrightarrow> type t = JStr ''General Inquiry'')
       \<and> (\<forall>a. b ''area'' = Some (JStr a) \<and> a \<noteq> [] \<longrightarrow> area t = JStr a)
       \<and> (b ''area'' = None \<or> b ''area'' = Some (JStr '''')
            \<longrightarrow> area t = JStr ''IT Support'')
       \<and> status t = JStr ''open'' \<and> id_t t = now \<and> created_at t = date"
proof -
  let ?t = "\<lparr>id_t = now, title = stringify (JStr s),
          description = stringify (js_or (b ''description'') (JStr '''')),
          type = stringify (js_or (b ''type'') (JStr ''General Inquiry'')),
          area = stringify (js_or (b ''area'') (JStr ''IT Support'')),
          status = JStr ''open'', created_at = date\<rparr>"
  from assms(3) have tr: "truthy (Some (JStr s))" by simp
  have r: "post_tickets now date b c
           = (respond 201 (RTicket ?t), c\<lparr>stored := Some (tickets @ [?t])\<rparr>)"
    using post_tickets_created [where b = b and tv = "JStr s" and c = c and tickets = tickets
      and now = now and date = date, OF assms(2) tr assms(1)] .
  have de: "\<forall>d. b ''description'' = Some (JStr d) \<longrightarrow> description ?t = JStr d"
    by (auto simp: js_or_def)
  have dn: "b ''description'' = None \<longrightarrow> description ?t = JStr ''''"
    by (simp add: js_or_absent)
  have ty: "\<forall>y. b ''type'' = Some (JStr y) \<and> y \<noteq> [] \<longrightarrow> type ?t = JStr y"
    by (simp add: js_or_string)
  have tn: "b ''type'' = None \<or> b ''type'' = Some (JStr '''')
            \<longrightarrow> type ?t = JStr ''General Inquiry''"
    by (auto simp: js_or_absent js_or_empty_string)
  have ar: "\<forall>a. b ''area'' = Some (JStr a) \<and> a \<noteq> [] \<longrightarrow> area ?t = JStr a"
    by (simp add: js_or_string)
  have an: "b ''area'' = None \<or> b ''area'' = Some (JStr '''')
            \<longrightarrow> area ?t = JStr ''IT Support''"
    by (auto simp: js_or_absent js_or_empty_string)
  show ?thesis
    apply (rule exI [of _ ?t])
    using r de dn ty tn ar an by simp
qed

theorem post_creates_ticket_with_defaults_witness:
  "getTickets (client_with [example_ticket 5 ''a'' 5]) = Inr [example_ticket 5 ''a'' 5]
   \<and> ([''title'' \<mapsto> JStr ''b'', ''area'' \<mapsto> JStr ''HR''] :: body) ''title'' = Some (JStr ''b'')
   \<and> ''b'' \<noteq> []
   \<and> post_tickets 6 7 [''title'' \<mapsto> JStr ''b'', ''area'' \<mapsto> JStr ''HR'']
        (client_with [example_ticket 5 ''a'' 5])
       = (respond 201 (RTicket ((example_ticket 6 ''b'' 7)\<lparr>area := JStr ''HR''\<rparr>)),
          client_with [example_ticket 5 ''a'' 5, (example_ticket 6 ''b'' 7)\<lparr>area := JStr ''HR''\<rparr>])"
proof -
  let ?ts = "[example_ticket 5 ''a'' 5]"
  let ?b = "[''title'' \<mapsto> JStr ''b'', ''area'' \<mapsto> JStr ''HR''] :: body"
  have g: "getTickets (client_with ?ts) = Inr ?ts" by (simp add: getTickets_def)
  have t: "?b ''title'' = Some (JStr ''b'')" by simp
  have ne: "''b'' \<noteq> []" by simp
  have d: "?b ''description'' = None" "?b ''type'' = None \<or> ?b ''type'' = Some (JStr '''')"
    and a: "?b ''area'' = Some (JStr ''HR'') \<and> ''HR'' \<noteq> []"
    by simp_all
  from post_creates_ticket_with_defaults [where c = "client_with ?ts" and tickets = ?ts
      and b = ?b and s = "''b''" and now = 6 and date = 7, OF g t ne]
  obtain t' where r: "post_tickets 6 7 ?b (client_with ?ts)
           = (respond 201 (RTicket t'), (client_with ?ts)\<lparr>stored := Some (?ts @ [t'])\<rparr>)"
    and f: "title t' = JStr ''b''" "status t' = JStr ''open''" "id_t t' = 6" "created_at t' = 7"
    and de: "?b ''description'' = None \<longrightarrow> description t' = JStr ''''"
    and ty: "?b ''type'' = None \<or> ?b ''type'' = Some (JStr '''')
            \<longrightarrow> type t' = JStr ''General Inquiry''"
    and ar: "\<forall>a. ?b ''area'' = Some (JStr a) \<and> a \<noteq> [] \<longrightarrow> area t' = JStr a"
    by (elim exE conjE) (rule that)
  from de d have de': "description t' = JStr ''''" by blast
  from ty d have ty': "type t' = JStr ''General Inquiry''" by blast
  from ar a have ar': "area t' = JStr ''HR''" by blast
  from f de' ty' ar' have "t' = (example_ticket 6 ''b'' 7)\<lparr>area := JStr ''HR''\<rparr>" by simp
  with r g t ne show ?thesis by simp
qed

text \<open>
  A title that \<^verbatim>\<open>JSON.parse\<close> reads as \<^verbatim>\<open>Infinity\<close> is accepted, and is answered and
  stored as \<^verbatim>\<open>null\<close>.
\<close>

lemma post_infinite_title_written_null:
  "truthy (Some (JNum PosInfinity))
   \<and> post_tickets 6 7 [''title'' \<mapsto> JNum PosInfinity] (client_with [])
     = (respond 201 (RTicket ((example_ticket 6 '''' 7)\<lparr>title := JNull\<rparr>)),
        client_with [(example_ticket 6 '''' 7)\<lparr>title := JNull\<rparr>])"
  by (simp add: post_tickets_def getTickets_def saveTickets_def js_or_def Let_def)

text \<open>
  Claim C2 as stated fails for a field that is supplied with a value JavaScript takes as
  false: a type supplied as the empty string is not kept, the created ticket has the
  default type.
\<close>

theorem post_supplied_empty_type_replaced:
  "([''title'' \<mapsto> JStr ''b'', ''type'' \<mapsto> JStr ''''] :: body) ''type'' = Some (JStr '''')
   \<and> post_tickets 6 7 [''title'' \<mapsto> JStr ''b'', ''type'' \<mapsto> JStr ''''] (client_with [])
       = (respond 201 (RTicket (example_ticket 6 ''b'' 7)), client_with [example_ticket 6 ''b'' 7])
   \<and> type (example_ticket 6 ''b'' 7) \<noteq> JStr ''''"
  by (simp add: post_tickets_def getTickets_def saveTickets_def js_or_def Let_def)

text \<open>
  Claim C10. When the store can be read and the title is accepted, Create answers 201
  with a ticket whose type is \<open>"General Inquiry"\<close> if the body supplied the empty string
  as type, and whose area is \<open>"IT Support"\<close> if it supplied the empty string as area; the
  type and the area of a created ticket are never the empty string; and a request that
  supplies the empty string for type (or area) gets the same answer and leaves the same
  store as the request without that field.
\<close>

theorem post_empty_type_area_take_defaults:
  assumes "getTickets c = Inr tickets"
    and "truthy (b ''title'')"
  shows "\<exists>t c'. post_tickets now date b c = (respond 201 (RTicket t), c')
       \<and> (b ''type'' = Some (JStr '''') \<longrightarrow> type t = JStr ''General Inquiry'')
       \<and> (b ''area'' = Some (JStr '''') \<longrightarrow> area t = JStr ''IT Support'')
       \<and> type t \<noteq> JStr '''' \<and> area t \<noteq> JStr ''''
       \<and> post_tickets now date (b(''type'' \<mapsto> JStr '''')) c
           = post_tickets now date (b(''type'' := None)) c
       \<and> post_tickets now date (b(''area'' \<mapsto> JStr '''')) c
           = post_tickets now date (b(''area'' := None)) c"
proof -
  from assms(2) obtain tv where tv: "b ''title'' = Some tv" by (cases "b ''title''") auto
  with assms(2) have tr: "truthy (Some tv)" by simp
  note r = post_tickets_created [where b = b and tv = tv and c = c and tickets = tickets
      and now = now and date = date, OF tv tr assms(1)]
  have ty: "post_tickets now date (b(''type'' \<mapsto> JStr '''')) c
           = post_tickets now date (b(''type'' := None)) c"
    by (simp add: post_tickets_def js_or_def split: option.split)
  have ar: "post_tickets now date (b(''area'' \<mapsto> JStr '''')) c
           = post_tickets now date (b(''area'' := None)) c"
    by (simp add: post_tickets_def js_or_def split: option.split)
  let ?t = "\<lparr>id_t = now, title = stringify tv,
          description = stringify (js_or (b ''description'') (JStr '''')),
          type = stringify (js_or (b ''type'') (JStr ''General Inquiry'')),
          area = stringify (js_or (b ''area'') (JStr ''IT Support'')),
          status = JStr ''open'', created_at = date\<rparr>"
  have e: "b ''type'' = Some (JStr '''') \<longrightarrow> type ?t = JStr ''General Inquiry''"
    "b ''area'' = Some (JStr '''') \<longrightarrow> area ?t = JStr ''IT Support''"
    by (simp_all add: js_or_def)
  have n: "type ?t \<noteq> JStr ''''" "area ?t \<noteq> JStr ''''"
    by (simp_all add: js_or_not_empty)
  show ?thesis
    apply (rule exI [of _ ?t], rule exI [of _ "c\<lparr>stored := Some (tickets @ [?t])\<rparr>"])
    using r e n ty ar by simp
qed

theorem post_empty_type_area_take_defaults_witness:
  "getTickets (client_with []) = Inr []
   \<and> truthy ([''title'' \<mapsto> JStr ''b'', ''type'' \<mapsto> JStr '''', ''area'' \<mapsto> JStr ''''] ''title'')
   \<and> post_tickets 6 7 [''title'' \<mapsto> JStr ''b'', ''type'' \<mapsto> JStr '''', ''area'' \<mapsto> JStr ''''] (client_with [])
       = (respond 201 (RTicket (example_ticket 6 ''b'' 7)), client_with [example_ticket 6 ''b'' 7])
   \<and> (\<exists>t. json (fst (post_tickets 6 7 [''title'' \<mapsto> JStr ''b'', ''type'' \<mapsto> JStr '''', ''area'' \<mapsto> JStr '''']
              (client_with []))) = RTicket t
        \<and> type t = JStr ''General Inquiry'' \<and> area t = JStr ''IT Support'')"
proof -
  let ?b = "[''title'' \<mapsto> JStr ''b'', ''type'' \<mapsto> JStr '''', ''area'' \<mapsto> JStr ''''] :: body"
  have g: "getTickets (client_with []) = Inr []" by (simp add: getTickets_def)
  have t: "truthy (?b ''title'')" by simp
  have s: "?b ''type'' = Some (JStr '''')" "?b ''area'' = Some (JStr '''')" by simp_all
  have e: "post_tickets 6 7 ?b (client_with [])
       = (respond 201 (RTicket (example_ticket 6 ''b'' 7)), client_with [example_ticket 6 ''b'' 7])"
    by (simp add: post_tickets_def getTickets_def saveTickets_def js_or_def Let_def)
  from post_empty_type_area_take_defaults [where c = "client_with []" and tickets = "[]"
      and b = ?b and now = 6 and date = 7, OF g t]
  obtain t' c' where r: "post_tickets 6 7 ?b (client_with []) = (respond 201 (RTicket t'), c')"
    and ty: "?b ''type'' = Some (JStr '''') \<longrightarrow> type t' = JStr ''General Inquiry''"
    and ar: "?b ''area'' = Some (JStr '''') \<longrightarrow> area t' = JStr ''IT Support''"
    by (elim exE conjE) (rule that)
  from ty ar s have "type t' = JStr ''General Inquiry'' \<and> area t' = JStr ''IT Support''" by blast
  with r have "\<exists>t. json (fst (post_tickets 6 7 ?b (client_with []))) = RTicket t
        \<and> type t = JStr ''General Inquiry'' \<and> area t = JStr ''IT Support''"
    by (simp add: respond_def)
  with g t e show ?thesis by blast
qed

text \<open>
  Claim C7 at the input where the code breaks it. Create refuses an empty title, Update
  does not: a PUT that supplies the empty string as title answers 200 and stores the
  ticket with the empty title.
\<close>

theorem put_empty_title_is_stored:
  "title (example_ticket 1 ''a'' 10) \<noteq> JStr ''''
   \<and> put_ticket (Some 1) [''title'' \<mapsto> JStr ''''] (client_with [example_ticket 1 ''a'' 10])
       = (respond 200 (RTicket (example_ticket 1 '''' 10)), client_with [example_ticket 1 '''' 10])
   \<and> title (example_ticket 1 '''' 10) = JStr ''''"
  by (simp add: put_ticket_def getTickets_def saveTickets_def put_fields_def Let_def)

end
